theory Spec2Isabelle
  imports Complex_Main "HOL-Library.Word" "HOL-Library.Monad_Syntax"
begin

unbundle bit_operations_syntax

section \<open>Data model\<close>

text \<open>
  JavaScript numbers are modelled as reals (loop counters and repetition counts as
  integers). An \<open>AudioBuffer\<close> is the Web Audio object: its channel count, its length in
  frames, its sample rate and one array of samples per channel. The field \<open>length\<close> of the
  source is \<open>length_frames\<close> here, and the fields \<open>id\<close> of samples and tracks are
  \<open>id_sample\<close> and \<open>id_track\<close>.
\<close>

record AudioBuffer =
  numberOfChannels :: nat
  length_frames :: nat
  sampleRate :: real
  channelData :: "real list list"

text \<open>The attribute \<open>AudioBuffer.duration\<close>: length in frames over the sample rate.\<close>

definition duration :: "AudioBuffer \<Rightarrow> real" where
  "duration b = real (length_frames b) / sampleRate b"

text \<open>Every channel of a buffer holds \<open>length\<close> samples.\<close>

definition wf_buffer :: "AudioBuffer \<Rightarrow> bool" where
  "wf_buffer b \<longleftrightarrow>
     length (channelData b) = numberOfChannels b \<and>
     list_all (\<lambda>ch. length ch = length_frames b) (channelData b)"

record Sample =
  id_sample :: string
  buffer :: AudioBuffer
  name :: string

record CompositionTrack =
  id_track :: string
  sampleId :: string
  startTime :: real
  repetitions :: int
  volume :: real
  pitchSemitones :: real
  reverbAmount :: real
  delayTime :: real
  delayFeedback :: real

text \<open>
  \<open>Partial<CompositionTrack>\<close>: every field is optional; \<open>None\<close> is a field the
  object does not name.
\<close>

record TrackUpdates =
  id_upd :: "string option"
  sampleId_upd :: "string option"
  startTime_upd :: "real option"
  repetitions_upd :: "int option"
  volume_upd :: "real option"
  pitchSemitones_upd :: "real option"
  reverbAmount_upd :: "real option"
  delayTime_upd :: "real option"
  delayFeedback_upd :: "real option"

definition noUpdates :: TrackUpdates where
  "noUpdates = \<lparr>id_upd = None, sampleId_upd = None, startTime_upd = None,
     repetitions_upd = None, volume_upd = None, pitchSemitones_upd = None,
     reverbAmount_upd = None, delayTime_upd = None, delayFeedback_upd = None\<rparr>"

text \<open>The object spread \<open>{ ...track, ...updates }\<close>.\<close>

definition spread :: "CompositionTrack \<Rightarrow> TrackUpdates \<Rightarrow> CompositionTrack" where
  "spread track updates =
     \<lparr>id_track = (case id_upd updates of None \<Rightarrow> id_track track | Some v \<Rightarrow> v),
      sampleId = (case sampleId_upd updates of None \<Rightarrow> sampleId track | Some v \<Rightarrow> v),
      startTime = (case startTime_upd updates of None \<Rightarrow> startTime track | Some v \<Rightarrow> v),
      repetitions = (case repetitions_upd updates of None \<Rightarrow> repetitions track | Some v \<Rightarrow> v),
      volume = (case volume_upd updates of None \<Rightarrow> volume track | Some v \<Rightarrow> v),
      pitchSemitones =
        (case pitchSemitones_upd updates of None \<Rightarrow> pitchSemitones track | Some v \<Rightarrow> v),
      reverbAmount =
        (case reverbAmount_upd updates of None \<Rightarrow> reverbAmount track | Some v \<Rightarrow> v),
      delayTime = (case delayTime_upd updates of None \<Rightarrow> delayTime track | Some v \<Rightarrow> v),
      delayFeedback =
        (case delayFeedback_upd updates of None \<Rightarrow> delayFeedback track | Some v \<Rightarrow> v)\<rparr>"

section \<open>The studio workspace: tracks, samples and the composition duration\<close>

text \<open>
  The nodes of the audio graph of one scheduled source, named as the variables of
  \<open>playComposition\<close> that hold them, each with the parameter the code sets on it (a
  gain, or the maximum and the time of a delay). \<open>MasterGain\<close> is \<open>gainNode.current\<close>.
\<close>

datatype node =
    Source
  | TrackGain real
  | ReverbNode
  | DryGain real
  | WetGain real
  | DelayNode real real
  | DelayFeedbackGain real
  | DelayDryGain real
  | DelayWetGain real
  | FinalGain real
  | MasterGain

text \<open>
  A source that was started: its buffer and playback rate, the nodes created for it and
  their connections, and the arguments of \<open>source.start(when, offset)\<close>. The index of
  the repetition (the loop variable \<open>i\<close>) is kept with it.
\<close>

record SourceEvent =
  ev_buffer :: AudioBuffer
  ev_playbackRate :: real
  ev_nodes :: "node list"
  ev_edges :: "(node \<times> node) list"
  ev_when :: real
  ev_offset :: real
  ev_repetition :: int

record AudioContext =
  ctx_currentTime :: real
  ctx_sampleRate :: real

text \<open>
  The state of the \<open>StudioWorkspace\<close> component the operations below read and write:
  props, state variables and refs. Toasts are recorded by their title;
  \<open>timeUpdateInterval\<close> tells whether the polling timer is set.
\<close>

record Studio =
  samples :: "Sample list"
  tracks :: "CompositionTrack list"
  compositionDuration :: real
  selectedSampleId :: "string option"
  toasts :: "string list"
  currentTime :: real
  isPlaying :: bool
  impulseResponse :: "AudioBuffer option"
  audioContext :: "AudioContext option"
  gainNode :: bool
  audioSources :: "SourceEvent list"
  timeUpdateInterval :: bool
  startTimeRef :: real

text \<open>\<open>semitonesToPlaybackRate\<close>: \<open>Math.pow(2, semitones / 12)\<close>.\<close>

definition semitonesToPlaybackRate :: "real \<Rightarrow> real" where
  "semitonesToPlaybackRate semitones = 2 powr (semitones / 12)"

text \<open>\<open>samples.find((s) => s.id === track.sampleId)\<close>.\<close>

definition findSample :: "Sample list \<Rightarrow> string \<Rightarrow> Sample option" where
  "findSample smps sid = find (\<lambda>s. id_sample s = sid) smps"

text \<open>
  The end time of a track as \<open>updateCompositionDuration\<close> computes it, once the sample
  is found.
\<close>

definition trackEndTime :: "Sample \<Rightarrow> CompositionTrack \<Rightarrow> real" where
  "trackEndTime sample track =
     (let playbackRate = semitonesToPlaybackRate (pitchSemitones track);
          adjustedDuration = duration (buffer sample) / playbackRate
      in startTime track + adjustedDuration * real_of_int (repetitions track))"

text \<open>
  The body of the \<open>forEach\<close> of \<open>updateCompositionDuration\<close>: a track whose sample is
  not found leaves \<open>maxEndTime\<close> as it is.
\<close>

definition durationStep :: "Sample list \<Rightarrow> real \<Rightarrow> CompositionTrack \<Rightarrow> real" where
  "durationStep smps maxEndTime track =
     (case findSample smps (sampleId track) of
        None \<Rightarrow> maxEndTime
      | Some sample \<Rightarrow> max maxEndTime (trackEndTime sample track))"

definition maxEndTimeOf :: "Sample list \<Rightarrow> CompositionTrack list \<Rightarrow> real" where
  "maxEndTimeOf smps updatedTracks = foldl (durationStep smps) 0 updatedTracks"

definition updateCompositionDuration :: "CompositionTrack list \<Rightarrow> Studio \<Rightarrow> Studio" where
  "updateCompositionDuration updatedTracks st =
     st\<lparr>compositionDuration := maxEndTimeOf (samples st) updatedTracks\<rparr>"

definition updateTrack :: "string \<Rightarrow> TrackUpdates \<Rightarrow> Studio \<Rightarrow> Studio" where
  "updateTrack trackId updates st =
     (let updatedTracks =
            map (\<lambda>track. if id_track track = trackId then spread track updates else track)
              (tracks st)
      in updateCompositionDuration updatedTracks (st\<lparr>tracks := updatedTracks\<rparr>))"

definition deleteSample :: "string \<Rightarrow> Studio \<Rightarrow> Studio" where
  "deleteSample sid st =
     (let isUsed = list_ex (\<lambda>track. sampleId track = sid) (tracks st)
      in if isUsed then st\<lparr>toasts := toasts st @ [''Cannot delete sample'']\<rparr>
         else
           (let updatedSamples = filter (\<lambda>sample. id_sample sample \<noteq> sid) (samples st)
            in st\<lparr>samples := updatedSamples,
                  selectedSampleId :=
                    (if selectedSampleId st = Some sid then None else selectedSampleId st),
                  toasts := toasts st @ [''Sample deleted'']\<rparr>))"

text \<open>The tracks of a list whose sample is in the library, each with its sample.\<close>

definition resolved :: "Sample list \<Rightarrow> CompositionTrack list \<Rightarrow> (Sample \<times> CompositionTrack) list" where
  "resolved smps ts =
     concat (map (\<lambda>track. case findSample smps (sampleId track) of
                            None \<Rightarrow> [] | Some sample \<Rightarrow> [(sample, track)]) ts)"

definition endTimes :: "Sample list \<Rightarrow> CompositionTrack list \<Rightarrow> real set" where
  "endTimes smps ts = (\<lambda>(sample, track). trackEndTime sample track) ` set (resolved smps ts)"

text \<open>The buffer, sample and track of the duration scenarios.\<close>

definition silence :: "nat \<Rightarrow> nat \<Rightarrow> real \<Rightarrow> AudioBuffer" where
  "silence nch n rate =
     \<lparr>numberOfChannels = nch, length_frames = n, sampleRate = rate,
      channelData = replicate nch (replicate n 0)\<rparr>"

definition twoSecondSample :: Sample where
  "twoSecondSample = \<lparr>id_sample = ''s1'', buffer = silence 1 88200 44100, name = ''Sample 1''\<rparr>"

definition plainTrack :: "string \<Rightarrow> string \<Rightarrow> real \<Rightarrow> int \<Rightarrow> CompositionTrack" where
  "plainTrack tid sid start reps =
     \<lparr>id_track = tid, sampleId = sid, startTime = start, repetitions = reps, volume = 0.8,
      pitchSemitones = 0, reverbAmount = 0, delayTime = 0, delayFeedback = 0\<rparr>"

text \<open>A workspace with one sample and two tracks that use it.\<close>

definition studio0 :: Studio where
  "studio0 = \<lparr>samples = [twoSecondSample],
     tracks = [plainTrack ''t1'' ''s1'' 0 1, plainTrack ''t2'' ''s1'' 2.5 1],
     compositionDuration = 4.5, selectedSampleId = Some ''s1'', toasts = [],
     currentTime = 0, isPlaying = False, impulseResponse = None,
     audioContext = Some \<lparr>ctx_currentTime = 0, ctx_sampleRate = 44100\<rparr>, gainNode = True,
     audioSources = [], timeUpdateInterval = False, startTimeRef = 0\<rparr>"

definition earlyTrack :: CompositionTrack where
  "earlyTrack = plainTrack ''t1'' ''s1'' (- 5) 1"

definition moveTo3 :: TrackUpdates where
  "moveTo3 = noUpdates\<lparr>startTime_upd := Some 3\<rparr>"

section \<open>The waveform view: time and pixel coordinates\<close>

text \<open>
  The props and state of \<open>AudioWaveform\<close> that \<open>xToTime\<close> and \<open>timeToX\<close> read. The
  buffer is optional because both functions test it.
\<close>

record WaveformView =
  audioBuffer :: "AudioBuffer option"
  zoomLevel :: real
  zoomCenter :: real

text \<open>
  The start and end of the visible section, computed in the same way by both functions
  (\<open>startTime\<close> and \<open>endTime\<close> in the source).
\<close>

definition visibleStart :: "WaveformView \<Rightarrow> AudioBuffer \<Rightarrow> real" where
  "visibleStart v b =
     (let visibleDuration = duration b / zoomLevel v
      in max 0 (zoomCenter v * duration b - visibleDuration / 2))"

definition visibleEnd :: "WaveformView \<Rightarrow> AudioBuffer \<Rightarrow> real" where
  "visibleEnd v b =
     (let visibleDuration = duration b / zoomLevel v
      in min (duration b) (visibleStart v b + visibleDuration))"

definition xToTime :: "WaveformView \<Rightarrow> real \<Rightarrow> real \<Rightarrow> real" where
  "xToTime v x canvasWidth =
     (case audioBuffer v of
        None \<Rightarrow> 0
      | Some b \<Rightarrow>
          visibleStart v b + (x / canvasWidth) * (visibleEnd v b - visibleStart v b))"

definition timeToX :: "WaveformView \<Rightarrow> real \<Rightarrow> real \<Rightarrow> real" where
  "timeToX v time canvasWidth =
     (case audioBuffer v of
        None \<Rightarrow> 0
      | Some b \<Rightarrow>
          ((time - visibleStart v b) / (visibleEnd v b - visibleStart v b)) * canvasWidth)"

definition zoomedView :: WaveformView where
  "zoomedView = \<lparr>audioBuffer = Some (silence 1 88200 44100), zoomLevel = 4, zoomCenter = 1\<rparr>"

section \<open>WAV encoding\<close>

text \<open>
  The \<open>ArrayBuffer\<close> under a \<open>DataView\<close> is a list of bytes. A write of the bytes
  \<open>bs\<close> at \<open>off\<close> replaces that many bytes; a write that does not fit raises a
  \<open>RangeError\<close>, which is \<open>None\<close> here.
\<close>

type_synonym byte = "8 word"

definition writeBytes :: "byte list \<Rightarrow> nat \<Rightarrow> byte list \<Rightarrow> byte list option" where
  "writeBytes view off bs =
     (if off + length bs \<le> length view
      then Some (take off view @ bs @ drop (off + length bs) view)
      else None)"

text \<open>The \<open>n\<close> low bytes of an integer in two's complement, the lowest first.\<close>

definition le_bytes :: "nat \<Rightarrow> int \<Rightarrow> byte list" where
  "le_bytes n v = map (\<lambda>k. word_of_int (v div 256 ^ k)) [0..<n]"

text \<open>
  The conversion of a number to an integer by the \<open>DataView\<close> setters: the fraction is
  dropped (towards zero); the setters then keep the low bits.
\<close>

definition js_trunc :: "real \<Rightarrow> int" where
  "js_trunc x = (if 0 \<le> x then \<lfloor>x\<rfloor> else \<lceil>x\<rceil>)"

definition setUint8 :: "byte list \<Rightarrow> nat \<Rightarrow> int \<Rightarrow> byte list option" where
  "setUint8 view off v = writeBytes view off [word_of_int v]"

text \<open>The setters below are the little-endian ones (\<open>littleEndian = true\<close> in every call).\<close>

definition setUint16 :: "byte list \<Rightarrow> nat \<Rightarrow> int \<Rightarrow> byte list option" where
  "setUint16 view off v = writeBytes view off (le_bytes 2 v)"

definition setUint32 :: "byte list \<Rightarrow> nat \<Rightarrow> int \<Rightarrow> byte list option" where
  "setUint32 view off v = writeBytes view off (le_bytes 4 v)"

definition setInt16 :: "byte list \<Rightarrow> nat \<Rightarrow> real \<Rightarrow> byte list option" where
  "setInt16 view off x = writeBytes view off (le_bytes 2 (js_trunc x))"

fun writeString :: "byte list \<Rightarrow> nat \<Rightarrow> string \<Rightarrow> byte list option" where
  "writeString view offset [] = Some view"
| "writeString view offset (c # cs) =
     do { view' \<leftarrow> setUint8 view offset (of_char c); writeString view' (offset + 1) cs }"

text \<open>
  The bitwise operators of JavaScript work on the 32-bit two's complement value of their
  operands: \<open>a & b\<close> and \<open>a >> n\<close>.
\<close>

definition toInt32 :: "int \<Rightarrow> 32 word" where
  "toInt32 v = word_of_int v"

definition js_and :: "int \<Rightarrow> int \<Rightarrow> int" where
  "js_and a b = sint (toInt32 a AND toInt32 b)"

definition js_shr :: "int \<Rightarrow> nat \<Rightarrow> int" where
  "js_shr a n = sint (signed_drop_bit n (toInt32 a))"

text \<open>
  \<open>writeSample\<close>: the state is the view and the variable \<open>offset\<close> of the enclosing
  function. A sample is a 32-bit float, so its products with 32767 and 8388607 are exact
  in double precision, as they are over the reals.
\<close>

definition writeSample :: "nat \<Rightarrow> real \<Rightarrow> byte list \<times> nat \<Rightarrow> (byte list \<times> nat) option" where
  "writeSample bitsPerSample sample0 st =
     (let view = fst st; offset = snd st;
          sample = max (- 1) (min 1 sample0)
      in if bitsPerSample = 16 then
           do { view1 \<leftarrow> setInt16 view offset (sample * 32767);
                Some (view1, offset + 2) }
         else
           (let value = \<lfloor>sample * 8388607\<rfloor>
            in do { view1 \<leftarrow> setUint8 view offset (js_and value 0xff);
                    view2 \<leftarrow> setUint8 view1 (offset + 1) (js_and (js_shr value 8) 0xff);
                    view3 \<leftarrow> setUint8 view2 (offset + 2) (js_and (js_shr value 16) 0xff);
                    Some (view3, offset + 3) }))"

text \<open>A \<open>for\<close> loop whose body may raise: the first failure ends it.\<close>

fun forEachM :: "('a \<Rightarrow> 's \<Rightarrow> 's option) \<Rightarrow> 'a list \<Rightarrow> 's \<Rightarrow> 's option" where
  "forEachM f [] s = Some s"
| "forEachM f (x # xs) s = (case f x s of None \<Rightarrow> None | Some s' \<Rightarrow> forEachM f xs s')"

text \<open>
  \<open>audioBuffer.getChannelData(channel)[i]\<close>. The loops of the encoder stay inside the
  buffer. A read outside a typed array gives \<open>undefined\<close>, which \<open>writeSample\<close> turns
  into zero bytes, as it does for the sample 0.
\<close>

definition sampleAt :: "AudioBuffer \<Rightarrow> nat \<Rightarrow> nat \<Rightarrow> real" where
  "sampleAt b channel i =
     (if channel < length (channelData b) \<and> i < length (channelData b ! channel)
      then channelData b ! channel ! i else 0)"

definition bitsPerSampleOf :: "real \<Rightarrow> nat" where
  "bitsPerSampleOf quality = (if quality \<ge> 0.8 then 24 else 16)"

text \<open>The header of 44 bytes, written field by field.\<close>

definition writeHeader :: "byte list \<Rightarrow> nat \<Rightarrow> real \<Rightarrow> nat \<Rightarrow> nat \<Rightarrow> byte list option" where
  "writeHeader arrayBuffer numChannels rate bitsPerSample dataSize =
     (let bytesPerSample = bitsPerSample div 8
      in do {
        view1 \<leftarrow> writeString arrayBuffer 0 ''RIFF'';
        view2 \<leftarrow> setUint32 view1 4 (int (36 + dataSize));
        view3 \<leftarrow> writeString view2 8 ''WAVE'';
        view4 \<leftarrow> writeString view3 12 ''fmt '';
        view5 \<leftarrow> setUint32 view4 16 16;
        view6 \<leftarrow> setUint16 view5 20 1;
        view7 \<leftarrow> setUint16 view6 22 (int numChannels);
        view8 \<leftarrow> setUint32 view7 24 (js_trunc rate);
        view9 \<leftarrow> setUint32 view8 28 (js_trunc (rate * real numChannels * real bytesPerSample));
        view10 \<leftarrow> setUint16 view9 32 (int (numChannels * bytesPerSample));
        view11 \<leftarrow> setUint16 view10 34 (int bitsPerSample);
        view12 \<leftarrow> writeString view11 36 ''data'';
        setUint32 view12 40 (int dataSize)
      })"

text \<open>
  \<open>audioBufferToWav\<close>: the bytes of the blob. The two nested loops write the samples,
  the frame index \<open>i\<close> outside and the channel inside.
\<close>

definition audioBufferToWav :: "AudioBuffer \<Rightarrow> real \<Rightarrow> byte list option" where
  "audioBufferToWav b quality =
     (let numChannels = numberOfChannels b;
          bitsPerSample = bitsPerSampleOf quality;
          bytesPerSample = bitsPerSample div 8;
          dataSize = length_frames b * numChannels * bytesPerSample;
          arrayBuffer = replicate (44 + dataSize) 0
      in do {
        view \<leftarrow> writeHeader arrayBuffer numChannels (sampleRate b) bitsPerSample dataSize;
        final \<leftarrow> forEachM
          (\<lambda>i. forEachM (\<lambda>channel. writeSample bitsPerSample (sampleAt b channel i))
                  [0..<numChannels])
          [0..<length_frames b] (view, 44);
        Some (fst final)
      })"

text \<open>
  Reading bytes back: the unsigned and the two's complement value of a little-endian
  byte string.
\<close>

fun le_unsigned :: "byte list \<Rightarrow> int" where
  "le_unsigned [] = 0"
| "le_unsigned (b # bs) = uint b + 256 * le_unsigned bs"

definition le_signed :: "byte list \<Rightarrow> int" where
  "le_signed bs =
     (let u = le_unsigned bs
      in if 2 * u < 256 ^ length bs then u else u - 256 ^ length bs)"

definition clampSample :: "real \<Rightarrow> real" where
  "clampSample s = max (- 1) (min 1 s)"

text \<open>A mono buffer of one frame holding the sample 1/4, and a stereo one of two frames.\<close>

definition quarterBuffer :: AudioBuffer where
  "quarterBuffer = \<lparr>numberOfChannels = 1, length_frames = 1, sampleRate = 44100,
     channelData = [ [1/4] ]\<rparr>"

definition stereoBuffer :: AudioBuffer where
  "stereoBuffer = \<lparr>numberOfChannels = 2, length_frames = 2, sampleRate = 44100,
     channelData = [ [1/2, - 1], [- 1/4, 3] ]\<rparr>"

text \<open>The bytes \<open>writeSample\<close> writes for one sample, as a value.\<close>

definition sampleBytes :: "nat \<Rightarrow> real \<Rightarrow> byte list" where
  "sampleBytes bitsPerSample sample =
     (if bitsPerSample = 16 then le_bytes 2 (js_trunc (clampSample sample * 32767))
      else le_bytes 3 \<lfloor>clampSample sample * 8388607\<rfloor>)"

text \<open>The character codes of a string, and the 44 bytes of the header in file order.\<close>

definition stringBytes :: "string \<Rightarrow> byte list" where
  "stringBytes cs = map (\<lambda>c. word_of_int (of_char c)) cs"

definition headerBytes :: "nat \<Rightarrow> real \<Rightarrow> nat \<Rightarrow> nat \<Rightarrow> byte list" where
  "headerBytes numChannels rate bitsPerSample dataSize =
     stringBytes ''RIFF'' @ le_bytes 4 (int (36 + dataSize)) @ stringBytes ''WAVE'' @
     stringBytes ''fmt '' @ le_bytes 4 16 @ le_bytes 2 1 @ le_bytes 2 (int numChannels) @
     le_bytes 4 (js_trunc rate) @
     le_bytes 4 (js_trunc (rate * real numChannels * real (bitsPerSample div 8))) @
     le_bytes 2 (int (numChannels * (bitsPerSample div 8))) @ le_bytes 2 (int bitsPerSample) @
     stringBytes ''data'' @ le_bytes 4 (int dataSize)"

text \<open>The samples in the order the two loops visit them.\<close>

definition interleaved :: "AudioBuffer \<Rightarrow> real list" where
  "interleaved b =
     concat (map (\<lambda>i. map (\<lambda>channel. sampleAt b channel i) [0..<numberOfChannels b])
               [0..<length_frames b])"

section \<open>Scheduling: \<open>playComposition\<close>\<close>

text \<open>
  The calls \<open>a.connect(b)\<close>, \<open>a.disconnect(b)\<close> and \<open>a.disconnect()\<close>, applied to
  the list of connections. Connecting twice is connecting once.
\<close>

datatype wiring = Connect node node | Disconnect node node | DisconnectAll node

fun applyWiring :: "wiring \<Rightarrow> (node \<times> node) list \<Rightarrow> (node \<times> node) list" where
  "applyWiring (Connect a b) es = (if (a, b) \<in> set es then es else es @ [(a, b)])"
| "applyWiring (Disconnect a b) es = filter (\<lambda>e. e \<noteq> (a, b)) es"
| "applyWiring (DisconnectAll a) es = filter (\<lambda>e. fst e \<noteq> a) es"

text \<open>
  The nodes created for one source, in the order of creation: the track gain, the reverb
  nodes when \<open>reverbAmount > 0\<close> and there is an impulse response, the delay nodes when
  \<open>delayTime > 0\<close>, and the final gain when both are there.
\<close>

definition hasReverb :: "CompositionTrack \<Rightarrow> AudioBuffer option \<Rightarrow> bool" where
  "hasReverb track impulse \<longleftrightarrow> reverbAmount track > 0 \<and> impulse \<noteq> None"

definition hasDelay :: "CompositionTrack \<Rightarrow> bool" where
  "hasDelay track \<longleftrightarrow> delayTime track > 0"

definition chainNodes :: "CompositionTrack \<Rightarrow> AudioBuffer option \<Rightarrow> node list" where
  "chainNodes track impulse =
     [Source, TrackGain (volume track)] @
     (if hasReverb track impulse
      then [ReverbNode, DryGain (1 - reverbAmount track), WetGain (reverbAmount track)] else []) @
     (if hasDelay track
      then [DelayNode 2.0 (delayTime track), DelayFeedbackGain (delayFeedback track),
            DelayDryGain 1.0, DelayWetGain 0.8] else []) @
     (if hasReverb track impulse \<and> hasDelay track then [FinalGain 1.0] else [])"

text \<open>The connection calls of one source, in the order of the source text.\<close>

definition chainWiring :: "CompositionTrack \<Rightarrow> AudioBuffer option \<Rightarrow> wiring list" where
  "chainWiring track impulse =
     (let trackGain = TrackGain (volume track);
          dryGain = DryGain (1 - reverbAmount track);
          wetGain = WetGain (reverbAmount track);
          delayNode = DelayNode 2.0 (delayTime track);
          delayFeedbackGain = DelayFeedbackGain (delayFeedback track);
          delayDryGain = DelayDryGain 1.0;
          delayWetGain = DelayWetGain 0.8;
          finalGain = FinalGain 1.0
      in (if hasDelay track
          then [Connect Source delayDryGain, Connect Source delayNode,
                Connect delayNode delayFeedbackGain, Connect delayFeedbackGain delayNode,
                Connect delayNode delayWetGain,
                Connect delayDryGain trackGain, Connect delayWetGain trackGain]
          else [Connect Source trackGain]) @
         (if hasReverb track impulse
          then (if \<not> hasDelay track
                then [Disconnect Source trackGain,
                      Connect Source dryGain, Connect Source ReverbNode,
                      Connect dryGain trackGain, Connect ReverbNode wetGain,
                      Connect wetGain trackGain,
                      Connect trackGain MasterGain]
                else [DisconnectAll trackGain,
                      Connect trackGain dryGain, Connect trackGain ReverbNode,
                      Connect dryGain finalGain, Connect ReverbNode wetGain,
                      Connect wetGain finalGain,
                      Connect finalGain MasterGain])
          else [Connect trackGain MasterGain]))"

definition chainEdges :: "CompositionTrack \<Rightarrow> AudioBuffer option \<Rightarrow> (node \<times> node) list" where
  "chainEdges track impulse = fold applyWiring (chainWiring track impulse) []"

text \<open>
  One source with its chain, started at \<open>when\<close> from \<open>offset\<close> seconds into the sample.
  The text that builds the source and its chain is the same in both branches of
  \<open>playComposition\<close>.
\<close>

definition startSource ::
  "Sample \<Rightarrow> CompositionTrack \<Rightarrow> AudioBuffer option \<Rightarrow> int \<Rightarrow> real \<Rightarrow> real \<Rightarrow> SourceEvent" where
  "startSource sample track impulse i when offset =
     \<lparr>ev_buffer = buffer sample,
      ev_playbackRate = semitonesToPlaybackRate (pitchSemitones track),
      ev_nodes = chainNodes track impulse,
      ev_edges = chainEdges track impulse,
      ev_when = when, ev_offset = offset, ev_repetition = i\<rparr>"

text \<open>
  The body of \<open>tracks.forEach\<close> in \<open>playComposition\<close>: the sources started for one
  track, in order. \<open>startTime\<close> is the time of the audio context when playback begins and
  \<open>playbackStartTime\<close> the cursor. The bound names \<open>deviceStart\<close> and \<open>cursor\<close> stand for
  the source's \<open>startTime\<close> and \<open>playbackStartTime\<close>.
\<close>

definition scheduleTrack ::
  "real \<Rightarrow> real \<Rightarrow> AudioBuffer option \<Rightarrow> Sample list \<Rightarrow> CompositionTrack \<Rightarrow> SourceEvent list" where
  "scheduleTrack deviceStart cursor impulse smps track =
     (case findSample smps (sampleId track) of
        None \<Rightarrow> []
      | Some sample \<Rightarrow>
          (let playbackRate = semitonesToPlaybackRate (pitchSemitones track)
           in if startTime track > cursor then
                concat (map (\<lambda>i.
                  (let trackStartTime =
                         startTime track + real_of_int i * (duration (buffer sample) / playbackRate);
                       scheduledStartTime = deviceStart + (trackStartTime - cursor)
                   in if scheduledStartTime \<ge> deviceStart
                      then [startSource sample track impulse i scheduledStartTime 0]
                      else []))
                  [0..repetitions track - 1])
              else
                (let sampleDuration = duration (buffer sample) / playbackRate;
                     trackEnd = startTime track + sampleDuration * real_of_int (repetitions track)
                 in if trackEnd > cursor then
                      (let repetitionIndex = \<lfloor>(cursor - startTime track) / sampleDuration\<rfloor>
                       in if repetitionIndex < repetitions track then
                            (let repetitionStartTime =
                                   startTime track + real_of_int repetitionIndex * sampleDuration;
                                 offsetInSample = (cursor - repetitionStartTime) * playbackRate
                             in map (\<lambda>i.
                                  if i = repetitionIndex
                                  then startSource sample track impulse i deviceStart offsetInSample
                                  else
                                    (let nextRepStartTime =
                                           repetitionStartTime +
                                           real_of_int (i - repetitionIndex) * sampleDuration +
                                           offsetInSample / playbackRate;
                                         scheduledStartTime =
                                           deviceStart + (nextRepStartTime - cursor)
                                     in startSource sample track impulse i scheduledStartTime 0))
                                  [repetitionIndex..repetitions track - 1])
                          else [])
                    else [])))"

definition stopPlayback :: "Studio \<Rightarrow> Studio" where
  "stopPlayback st = st\<lparr>audioSources := [], timeUpdateInterval := False, isPlaying := False\<rparr>"

definition playComposition :: "Studio \<Rightarrow> Studio" where
  "playComposition st =
     (case audioContext st of
        None \<Rightarrow> st
      | Some ctx \<Rightarrow>
          if \<not> gainNode st then st
          else if tracks st = [] then st
          else
            (let st1 = stopPlayback st;
                 deviceStart = ctx_currentTime ctx;
                 cursor = currentTime st
             in st1\<lparr>startTimeRef := deviceStart,
                    audioSources :=
                      concat (map (scheduleTrack deviceStart cursor (impulseResponse st) (samples st))
                                (tracks st)),
                    isPlaying := True,
                    timeUpdateInterval := True\<rparr>))"

section \<open>Export: \<open>exportComposition\<close>\<close>

text \<open>
  An offline context: its size and the sources started in it. Its constructor raises a
  \<open>NotSupportedError\<close> (\<open>None\<close>) for a length of zero frames.
\<close>

record OfflineAudioContext =
  oc_numberOfChannels :: nat
  oc_length :: nat
  oc_sampleRate :: real
  oc_sources :: "SourceEvent list"

definition newOfflineAudioContext :: "nat \<Rightarrow> int \<Rightarrow> real \<Rightarrow> OfflineAudioContext option" where
  "newOfflineAudioContext nch len rate =
     (if len \<le> 0 then None
      else Some \<lparr>oc_numberOfChannels = nch, oc_length = nat len, oc_sampleRate = rate,
                 oc_sources = []\<rparr>)"

text \<open>
  \<open>startRendering\<close>: a context in which no source was started renders silence. Mixing
  started sources is the work of the audio engine and is not modelled (\<open>None\<close>).
\<close>

definition startRendering :: "OfflineAudioContext \<Rightarrow> AudioBuffer option" where
  "startRendering oc =
     (if oc_sources oc = []
      then Some (silence (oc_numberOfChannels oc) (oc_length oc) (oc_sampleRate oc))
      else None)"

text \<open>How a call ends: an early \<open>return\<close>, an exception, or the end of the body.\<close>

datatype 'a completion = Returns | Throws | Completes 'a

record ExportResult =
  ex_context :: OfflineAudioContext
  ex_rendered :: AudioBuffer
  ex_blob :: "byte list"
  ex_extension :: string

text \<open>
  \<open>exportComposition\<close> for the format \<open>"wav"\<close> (also the \<open>default\<close> of the
  \<open>switch\<close>). Between the construction of the offline context and \<open>startRendering\<close>
  the source only copies the impulse response into a buffer of the offline context; it
  creates no node and starts no source there.
\<close>

definition exportComposition :: "Studio \<Rightarrow> real \<Rightarrow> ExportResult completion" where
  "exportComposition st quality =
     (case audioContext st of
        None \<Rightarrow> Returns
      | Some ctx \<Rightarrow>
          if tracks st = [] then Returns
          else
            (case newOfflineAudioContext 2
                    \<lceil>compositionDuration st * ctx_sampleRate ctx\<rceil> (ctx_sampleRate ctx) of
               None \<Rightarrow> Throws
             | Some offlineContext \<Rightarrow>
                 (case startRendering offlineContext of
                    None \<Rightarrow> Throws
                  | Some renderedBuffer \<Rightarrow>
                      (case audioBufferToWav renderedBuffer quality of
                         None \<Rightarrow> Throws
                       | Some blob \<Rightarrow>
                           Completes \<lparr>ex_context = offlineContext, ex_rendered = renderedBuffer,
                                      ex_blob = blob, ex_extension = ''wav''\<rparr>))))"

text \<open>
  The scenarios: a one-second sample repeated three times with the cursor at 1.5, and a
  two-second mono sample placed once at 0.
\<close>

definition oneSecondSample :: Sample where
  "oneSecondSample = \<lparr>id_sample = ''one'', buffer = silence 1 44100 44100, name = ''Sample 2''\<rparr>"

definition seekStudio :: Studio where
  "seekStudio = studio0\<lparr>samples := [oneSecondSample],
     tracks := [plainTrack ''A'' ''one'' 0 3], compositionDuration := 3,
     currentTime := 1.5,
     audioContext := Some \<lparr>ctx_currentTime = 10, ctx_sampleRate = 44100\<rparr>\<rparr>"

definition exportStudio :: Studio where
  "exportStudio = studio0\<lparr>tracks := [plainTrack ''t1'' ''s1'' 0 1], compositionDuration := 2\<rparr>"

text \<open>The nodes of the delay stage.\<close>

fun isDelayNode :: "node \<Rightarrow> bool" where
  "isDelayNode (DelayNode m t) = True"
| "isDelayNode (DelayFeedbackGain g) = True"
| "isDelayNode (DelayDryGain g) = True"
| "isDelayNode (DelayWetGain g) = True"
| "isDelayNode n = False"

definition hasDelayStage :: "SourceEvent \<Rightarrow> bool" where
  "hasDelayStage e \<longleftrightarrow>
     list_ex isDelayNode (ev_nodes e) \<or>
     list_ex (\<lambda>edge. isDelayNode (fst edge) \<or> isDelayNode (snd edge)) (ev_edges e)"

text \<open>What is read off a started source and off a finished export in the scenarios.\<close>

definition timing :: "SourceEvent \<Rightarrow> int \<times> real \<times> real" where
  "timing e = (ev_repetition e, ev_when e, ev_offset e)"

definition blobSize :: "ExportResult completion \<Rightarrow> nat option" where
  "blobSize c = (case c of Completes r \<Rightarrow> Some (length (ex_blob r)) | _ \<Rightarrow> None)"

definition offlineSources :: "ExportResult completion \<Rightarrow> SourceEvent list option" where
  "offlineSources c = (case c of Completes r \<Rightarrow> Some (oc_sources (ex_context r)) | _ \<Rightarrow> None)"

definition delayedTrack :: CompositionTrack where
  "delayedTrack = (plainTrack ''t1'' ''s1'' 0 2)\<lparr>reverbAmount := 0.5\<rparr>"

section \<open>Extraction of a sample: \<open>extractSample\<close>\<close>



























section \<open>Properties\<close>

subsection \<open>The composition duration\<close>

lemma maxEndTimeOf_foldl:
  "foldl (durationStep smps) a ts = Max (insert a (endTimes smps ts))"
proof (induction ts arbitrary: a)
  case Nil
  then show ?case by (simp add: endTimes_def resolved_def)
next
  case (Cons t ts)
  have fin: "finite (endTimes smps ts)"
    by (simp add: endTimes_def)
  show ?case
  proof (cases "findSample smps (sampleId t)")
    case None
    then have "endTimes smps (t # ts) = endTimes smps ts"
      by (simp add: endTimes_def resolved_def)
    moreover from None have "durationStep smps a t = a"
      by (simp add: durationStep_def)
    ultimately show ?thesis
      using Cons.IH by simp
  next
    case (Some s)
    then have e: "endTimes smps (t # ts) = insert (trackEndTime s t) (endTimes smps ts)"
      by (simp add: endTimes_def resolved_def)
    from Some have "durationStep smps a t = max a (trackEndTime s t)"
      by (simp add: durationStep_def)
    then have "foldl (durationStep smps) a (t # ts) =
            Max (insert (max a (trackEndTime s t)) (endTimes smps ts))"
      using Cons.IH by simp
    also have "\<dots> = Max (insert a (insert (trackEndTime s t) (endTimes smps ts)))"
    proof (cases "endTimes smps ts = {}")
      case True
      then show ?thesis by (simp add: max.commute)
    next
      case False
      with fin show ?thesis
        by (simp add: max.assoc)
    qed
    finally show ?thesis by (simp add: e)
  qed
qed

lemma scenario_octave:
  "maxEndTimeOf [twoSecondSample] [(plainTrack ''t1'' ''s1'' 0 1)\<lparr>pitchSemitones := 12\<rparr>] = 1"
  by (simp add: maxEndTimeOf_def durationStep_def findSample_def twoSecondSample_def
      plainTrack_def trackEndTime_def duration_def semitonesToPlaybackRate_def silence_def)

lemma ne_empty_if_mem: "x \<in> A \<Longrightarrow> A \<noteq> {}"
  by blast

lemma endTimes_formula:
  "endTimes smps ts =
     (\<lambda>(sample, track).
        startTime track +
        duration (buffer sample) / 2 powr (pitchSemitones track / 12) *
          real_of_int (repetitions track)) ` set (resolved smps ts)"
  by (simp add: endTimes_def trackEndTime_def semitonesToPlaybackRate_def Let_def)

lemma scenario_two_tracks:
  "maxEndTimeOf [oneSecondSample] [plainTrack ''A'' ''one'' 0 3, plainTrack ''B'' ''one'' 2.5 1] = 3.5"
  by (simp add: maxEndTimeOf_def durationStep_def findSample_def oneSecondSample_def
      plainTrack_def trackEndTime_def duration_def semitonesToPlaybackRate_def silence_def)

text \<open>
  C3, as the code has it: the recomputed composition duration is the maximum of 0 and of
  the end times \<open>startTime + (duration / 2^(pitchSemitones/12)) * repetitions\<close> of the
  tracks whose sample is found (the fold starts at 0). So it is 0 when no track resolves,
  and the plain maximum of the end times as soon as one of them is at least 0. A 2-second
  sample placed once at 0 gives 2, one octave up it gives 1, and a one-second sample
  three times from 0 with another once from 2.5 gives 3.5.
\<close>

theorem compositionDuration_max:
  "compositionDuration (updateCompositionDuration ts st) =
     Max (insert 0
       ((\<lambda>(sample, track).
           startTime track +
           duration (buffer sample) / 2 powr (pitchSemitones track / 12) *
             real_of_int (repetitions track)) ` set (resolved (samples st) ts)))
   \<and> (resolved (samples st) ts = [] \<longrightarrow>
        compositionDuration (updateCompositionDuration ts st) = 0)
   \<and> (list_ex (\<lambda>(sample, track).
           0 \<le> startTime track +
             duration (buffer sample) / 2 powr (pitchSemitones track / 12) *
               real_of_int (repetitions track)) (resolved (samples st) ts) \<longrightarrow>
        compositionDuration (updateCompositionDuration ts st) =
          Max ((\<lambda>(sample, track).
                 startTime track +
                 duration (buffer sample) / 2 powr (pitchSemitones track / 12) *
                   real_of_int (repetitions track)) ` set (resolved (samples st) ts)))
   \<and> maxEndTimeOf [twoSecondSample] [(plainTrack ''t1'' ''s1'' 0 1)\<lparr>pitchSemitones := 12\<rparr>] = 1
   \<and> maxEndTimeOf [twoSecondSample] [plainTrack ''t1'' ''s1'' 0 1] = 2
   \<and> maxEndTimeOf [oneSecondSample]
         [plainTrack ''A'' ''one'' 0 3, plainTrack ''B'' ''one'' 2.5 1] = 3.5"
proof (intro conjI impI)
  let ?f = "\<lambda>(sample, track).
           startTime track +
           duration (buffer sample) / 2 powr (pitchSemitones track / 12) *
             real_of_int (repetitions track)"
  let ?E = "?f ` set (resolved (samples st) ts)"
  show a: "compositionDuration (updateCompositionDuration ts st) = Max (insert 0 ?E)"
    by (simp add: updateCompositionDuration_def maxEndTimeOf_def maxEndTimeOf_foldl
        endTimes_formula)
  show "compositionDuration (updateCompositionDuration ts st) = 0"
    if "resolved (samples st) ts = []"
    using that by (simp add: a)
  show "compositionDuration (updateCompositionDuration ts st) = Max ?E"
    if h: "list_ex (\<lambda>(sample, track).
           0 \<le> startTime track +
             duration (buffer sample) / 2 powr (pitchSemitones track / 12) *
               real_of_int (repetitions track)) (resolved (samples st) ts)"
  proof -
    have fin: "finite ?E" by simp
    from h obtain e where e: "e \<in> ?E" "0 \<le> e"
      by (auto simp add: list_ex_iff)
    from e(1) have ne: "?E \<noteq> {}" by (rule ne_empty_if_mem)
    have "e \<le> Max ?E" using fin e(1) by (rule Max_ge)
    with e(2) have "0 \<le> Max ?E" by (rule order_trans)
    then show ?thesis
      using fin ne by (simp add: a max_def)
  qed
  show "maxEndTimeOf [twoSecondSample] [(plainTrack ''t1'' ''s1'' 0 1)\<lparr>pitchSemitones := 12\<rparr>] = 1"
    by (rule scenario_octave)
  show "maxEndTimeOf [twoSecondSample] [plainTrack ''t1'' ''s1'' 0 1] = 2"
    by (simp add: maxEndTimeOf_def durationStep_def findSample_def twoSecondSample_def
      plainTrack_def trackEndTime_def duration_def semitonesToPlaybackRate_def silence_def)
  show "maxEndTimeOf [oneSecondSample]
         [plainTrack ''A'' ''one'' 0 3, plainTrack ''B'' ''one'' 2.5 1] = 3.5"
    by (rule scenario_two_tracks)
qed

theorem compositionDuration_max_witness:
  "list_ex (\<lambda>(sample, track).
           0 \<le> startTime track +
             duration (buffer sample) / 2 powr (pitchSemitones track / 12) *
               real_of_int (repetitions track)) (resolved (samples studio0) (tracks studio0)) \<and>
   compositionDuration (updateCompositionDuration (tracks studio0) studio0) =
     Max ((\<lambda>(sample, track).
                 startTime track +
                 duration (buffer sample) / 2 powr (pitchSemitones track / 12) *
                   real_of_int (repetitions track)) ` set (resolved (samples studio0) (tracks studio0))) \<and>
   compositionDuration (updateCompositionDuration (tracks studio0) studio0) = 4.5 \<and>
   resolved (samples studio0) [plainTrack ''t9'' ''gone'' 0 1] = [] \<and>
   compositionDuration (updateCompositionDuration [plainTrack ''t9'' ''gone'' 0 1] studio0) = 0"
proof -
  have r: "resolved (samples studio0) (tracks studio0) =
      [(twoSecondSample, plainTrack ''t1'' ''s1'' 0 1), (twoSecondSample, plainTrack ''t2'' ''s1'' 2.5 1)]"
    by (simp add: studio0_def resolved_def findSample_def twoSecondSample_def plainTrack_def)
  have g: "resolved (samples studio0) [plainTrack ''t9'' ''gone'' 0 1] = []"
    by (simp add: studio0_def resolved_def findSample_def twoSecondSample_def plainTrack_def)
  have h: "list_ex (\<lambda>(sample, track).
           0 \<le> startTime track +
             duration (buffer sample) / 2 powr (pitchSemitones track / 12) *
               real_of_int (repetitions track)) (resolved (samples studio0) (tracks studio0))"
    by (simp add: r plainTrack_def twoSecondSample_def silence_def duration_def)
  have v: "Max ((\<lambda>(sample, track).
                 startTime track +
                 duration (buffer sample) / 2 powr (pitchSemitones track / 12) *
                   real_of_int (repetitions track)) ` set (resolved (samples studio0) (tracks studio0))) = 4.5"
    by (simp add: r plainTrack_def twoSecondSample_def silence_def duration_def)
  from compositionDuration_max [of "tracks studio0" studio0]
    compositionDuration_max [of "[plainTrack ''t9'' ''gone'' 0 1]" studio0] h g v
  show ?thesis by simp
qed

text \<open>
  C3 as stated fails for a track whose end time is negative: a 2-second sample placed once
  at -5 (a start time typed into the edit dialog) ends at -3, and the duration is 0.
\<close>

theorem negative_start_duration:
  "resolved (samples studio0) [earlyTrack] = [(twoSecondSample, earlyTrack)] \<and>
   startTime earlyTrack +
     duration (buffer twoSecondSample) / 2 powr (pitchSemitones earlyTrack / 12) *
       real_of_int (repetitions earlyTrack) = - 3 \<and>
   compositionDuration (updateCompositionDuration [earlyTrack] studio0) = 0"
  by (simp add: studio0_def resolved_def findSample_def twoSecondSample_def plainTrack_def
      earlyTrack_def silence_def duration_def updateCompositionDuration_def maxEndTimeOf_def
      durationStep_def trackEndTime_def semitonesToPlaybackRate_def)

subsection \<open>Deleting a sample\<close>

text \<open>
  C9: deleting a sample that a track of the composition refers to is rejected: the sample
  list and the track list are as before (only the warning toast is added).
\<close>

theorem deleteSample_in_use:
  "\<exists>t \<in> set (tracks st). sampleId t = sid \<Longrightarrow>
     samples (deleteSample sid st) = samples st \<and> tracks (deleteSample sid st) = tracks st \<and>
     deleteSample sid st = st\<lparr>toasts := toasts st @ [''Cannot delete sample'']\<rparr>"
  by (auto simp: deleteSample_def list_ex_iff)

theorem deleteSample_in_use_witness:
  "(\<exists>t \<in> set (tracks studio0). sampleId t = ''s1'') \<and>
   samples (deleteSample ''s1'' studio0) = samples studio0 \<and>
   tracks (deleteSample ''s1'' studio0) = tracks studio0"
  using deleteSample_in_use [of studio0 "''s1''"]
  by (simp add: studio0_def plainTrack_def)

subsection \<open>Updating a track\<close>

lemma spread_fields:
  "id_track (spread t u) = (case id_upd u of None \<Rightarrow> id_track t | Some v \<Rightarrow> v)"
  "sampleId (spread t u) = (case sampleId_upd u of None \<Rightarrow> sampleId t | Some v \<Rightarrow> v)"
  "startTime (spread t u) = (case startTime_upd u of None \<Rightarrow> startTime t | Some v \<Rightarrow> v)"
  "repetitions (spread t u) = (case repetitions_upd u of None \<Rightarrow> repetitions t | Some v \<Rightarrow> v)"
  "volume (spread t u) = (case volume_upd u of None \<Rightarrow> volume t | Some v \<Rightarrow> v)"
  "pitchSemitones (spread t u) =
     (case pitchSemitones_upd u of None \<Rightarrow> pitchSemitones t | Some v \<Rightarrow> v)"
  "reverbAmount (spread t u) = (case reverbAmount_upd u of None \<Rightarrow> reverbAmount t | Some v \<Rightarrow> v)"
  "delayTime (spread t u) = (case delayTime_upd u of None \<Rightarrow> delayTime t | Some v \<Rightarrow> v)"
  "delayFeedback (spread t u) =
     (case delayFeedback_upd u of None \<Rightarrow> delayFeedback t | Some v \<Rightarrow> v)"
  by (simp_all add: spread_def)

lemma tracks_updateTrack:
  "tracks (updateTrack trackId updates st) =
     map (\<lambda>track. if id_track track = trackId then spread track updates else track) (tracks st)"
  by (simp add: updateTrack_def updateCompositionDuration_def Let_def)

text \<open>
  C10: \<open>updateTrack\<close> keeps the length of the track list, leaves every track with
  another id as it is, leaves every field of a track with that id that the update does
  not name as it is, and changes nothing when no track has the id. When the ids are
  distinct, at most one position of the list changes.
\<close>

theorem updateTrack_frame:
  "length (tracks (updateTrack trackId updates st)) = length (tracks st) \<and>
   (\<forall>j < length (tracks st).
      (id_track (tracks st ! j) \<noteq> trackId \<longrightarrow>
         tracks (updateTrack trackId updates st) ! j = tracks st ! j) \<and>
      (id_track (tracks st ! j) = trackId \<longrightarrow>
         (id_upd updates = None \<longrightarrow>
            id_track (tracks (updateTrack trackId updates st) ! j) = id_track (tracks st ! j)) \<and>
         (sampleId_upd updates = None \<longrightarrow>
            sampleId (tracks (updateTrack trackId updates st) ! j) = sampleId (tracks st ! j)) \<and>
         (startTime_upd updates = None \<longrightarrow>
            startTime (tracks (updateTrack trackId updates st) ! j) = startTime (tracks st ! j)) \<and>
         (repetitions_upd updates = None \<longrightarrow>
            repetitions (tracks (updateTrack trackId updates st) ! j) =
              repetitions (tracks st ! j)) \<and>
         (volume_upd updates = None \<longrightarrow>
            volume (tracks (updateTrack trackId updates st) ! j) = volume (tracks st ! j)) \<and>
         (pitchSemitones_upd updates = None \<longrightarrow>
            pitchSemitones (tracks (updateTrack trackId updates st) ! j) =
              pitchSemitones (tracks st ! j)) \<and>
         (reverbAmount_upd updates = None \<longrightarrow>
            reverbAmount (tracks (updateTrack trackId updates st) ! j) =
              reverbAmount (tracks st ! j)) \<and>
         (delayTime_upd updates = None \<longrightarrow>
            delayTime (tracks (updateTrack trackId updates st) ! j) = delayTime (tracks st ! j)) \<and>
         (delayFeedback_upd updates = None \<longrightarrow>
            delayFeedback (tracks (updateTrack trackId updates st) ! j) =
              delayFeedback (tracks st ! j)))) \<and>
   ((\<forall>t \<in> set (tracks st). id_track t \<noteq> trackId) \<longrightarrow>
      tracks (updateTrack trackId updates st) = tracks st) \<and>
   (distinct (map id_track (tracks st)) \<longrightarrow>
      (\<forall>i < length (tracks st). \<forall>j < length (tracks st).
         tracks (updateTrack trackId updates st) ! i \<noteq> tracks st ! i \<and>
         tracks (updateTrack trackId updates st) ! j \<noteq> tracks st ! j \<longrightarrow> i = j))"
proof (intro conjI allI impI)
  show "tracks (updateTrack trackId updates st) = tracks st"
    if "\<forall>t \<in> set (tracks st). id_track t \<noteq> trackId"
    using that by (simp add: tracks_updateTrack map_idI)
next
  fix i j
  assume d: "distinct (map id_track (tracks st))"
    and i: "i < length (tracks st)" and j: "j < length (tracks st)"
    and ch: "tracks (updateTrack trackId updates st) ! i \<noteq> tracks st ! i \<and>
         tracks (updateTrack trackId updates st) ! j \<noteq> tracks st ! j"
  from ch i j have "id_track (tracks st ! i) = trackId" "id_track (tracks st ! j) = trackId"
    by (auto simp: tracks_updateTrack split: if_splits)
  then have "map id_track (tracks st) ! i = map id_track (tracks st) ! j"
    using i j by simp
  moreover have "i < length (map id_track (tracks st))" "j < length (map id_track (tracks st))"
    using i j by simp_all
  ultimately show "i = j"
    using d nth_eq_iff_index_eq by blast
qed (simp_all add: tracks_updateTrack spread_fields)

theorem updateTrack_frame_witness:
  "(1::nat) < length (tracks studio0) \<and> (0::nat) < length (tracks studio0) \<and>
   id_track (tracks studio0 ! 0) \<noteq> ''t2'' \<and>
   tracks (updateTrack ''t2'' moveTo3 studio0) ! 0 = tracks studio0 ! 0 \<and>
   id_track (tracks studio0 ! 1) = ''t2'' \<and> volume_upd moveTo3 = None \<and>
   volume (tracks (updateTrack ''t2'' moveTo3 studio0) ! 1) = volume (tracks studio0 ! 1) \<and>
   list_all (\<lambda>t. id_track t \<noteq> ''t7'') (tracks studio0) \<and>
   tracks (updateTrack ''t7'' moveTo3 studio0) = tracks studio0 \<and>
   distinct (map id_track (tracks studio0))"
  using updateTrack_frame [of "''t2''" moveTo3 studio0]
    updateTrack_frame [of "''t7''" moveTo3 studio0]
  by (simp add: studio0_def plainTrack_def moveTo3_def noUpdates_def)

subsection \<open>Time and pixel coordinates\<close>

lemma visible_window_nonempty:
  assumes "0 < duration b" "1 \<le> zoomLevel v" "0 \<le> zoomCenter v" "zoomCenter v \<le> 1"
  shows "visibleStart v b < visibleEnd v b"
proof -
  define d where "d = duration b"
  define vd where "vd = d / zoomLevel v"
  have vd: "0 < vd" using assms by (simp add: vd_def d_def)
  have "zoomCenter v * d \<le> d" using assms by (simp add: d_def mult_left_le_one_le)
  then have "zoomCenter v * d - vd / 2 < d" using vd by simp
  moreover have "0 < d" using assms by (simp add: d_def)
  ultimately have s: "visibleStart v b < d"
    by (simp add: visibleStart_def Let_def d_def[symmetric] vd_def[symmetric])
  have "visibleEnd v b = min d (visibleStart v b + vd)"
    by (simp add: visibleEnd_def Let_def d_def vd_def)
  with s vd show ?thesis by (simp add: min_def)
qed

text \<open>
  C7: for a loaded buffer (at least one frame, a positive sample rate), a zoom level of at
  least 1, a zoom centre in [0,1] and a positive canvas width, mapping a time of the
  visible window to a pixel and back gives the same time (over the reals exactly, so
  within 1e-6).
\<close>

theorem xToTime_timeToX:
  assumes "audioBuffer v = Some b" "0 < length_frames b" "0 < sampleRate b"
    and "1 \<le> zoomLevel v" "0 \<le> zoomCenter v" "zoomCenter v \<le> 1" "0 < W"
    and "visibleStart v b \<le> t" "t \<le> visibleEnd v b"
  shows "xToTime v (timeToX v t W) W = t \<and> \<bar>xToTime v (timeToX v t W) W - t\<bar> \<le> 1 / 10 ^ 6"
proof -
  have "0 < duration b" using assms by (simp add: duration_def)
  then have "visibleStart v b < visibleEnd v b"
    using assms by (intro visible_window_nonempty) simp_all
  then have "xToTime v (timeToX v t W) W = t"
    using assms by (simp add: xToTime_def timeToX_def)
  then show ?thesis by simp
qed

theorem xToTime_timeToX_witness:
  "audioBuffer zoomedView = Some (silence 1 88200 44100) \<and>
   0 < length_frames (silence 1 88200 44100) \<and> 0 < sampleRate (silence 1 88200 44100) \<and>
   1 \<le> zoomLevel zoomedView \<and> 0 \<le> zoomCenter zoomedView \<and> zoomCenter zoomedView \<le> 1 \<and>
   (0::real) < 800 \<and>
   visibleStart zoomedView (silence 1 88200 44100) \<le> 1.9 \<and>
   1.9 \<le> visibleEnd zoomedView (silence 1 88200 44100) \<and>
   xToTime zoomedView (timeToX zoomedView 1.9 800) 800 = 1.9"
  using xToTime_timeToX [of zoomedView "silence 1 88200 44100" 800 "1.9"]
  by (simp add: zoomedView_def silence_def visibleStart_def visibleEnd_def duration_def)

subsection \<open>The WAV encoder\<close>

lemma bit_255_iff: "bit (255::int) n \<longleftrightarrow> n < 8"
proof -
  have "bit (mask 8 :: int) n \<longleftrightarrow> n < 8" by (simp add: bit_mask_iff)
  then show ?thesis by (simp add: mask_eq_exp_minus_1)
qed

lemma div_256_drop: "(v::int) div 256 = drop_bit 8 v" "(v::int) div 65536 = drop_bit 16 v"
  by (simp_all add: drop_bit_eq_div)

lemma byte0: "(word_of_int (js_and v 0xff) :: byte) = word_of_int v"
  unfolding js_and_def toInt32_def
  by (rule bit_word_eqI) (auto simp add: bit_simps bit_255_iff)

lemma byte1: "(word_of_int (js_shr v 8) :: byte) = word_of_int (v div 256)"
  unfolding js_shr_def toInt32_def
  by (rule bit_word_eqI) (auto simp add: bit_simps bit_255_iff div_256_drop)

lemma byte2: "(word_of_int (js_shr v 16) :: byte) = word_of_int (v div 65536)"
  unfolding js_shr_def toInt32_def
  by (rule bit_word_eqI) (auto simp add: bit_simps bit_255_iff div_256_drop)

lemma length_sampleBytes: "length (sampleBytes bits s) = (if bits = 16 then 2 else 3)"
  by (simp add: sampleBytes_def le_bytes_def)

lemma writeBytes_seq:
  "writeBytes view off as \<bind> (\<lambda>v. writeBytes v (off + length as) bs \<bind> f) =
   writeBytes view off (as @ bs) \<bind> f"
proof (cases "off + length as \<le> length view")
  case True
  define v where "v = take off view @ as @ drop (off + length as) view"
  have w: "writeBytes view off as = Some v"
    using True by (simp add: writeBytes_def v_def)
  have lv: "length v = length view"
    using True by (simp add: v_def)
  have tk: "take (off + length as) v = take off view @ as"
    using True by (simp add: v_def)
  have dr: "drop (off + (length as + length bs)) v = drop (off + (length as + length bs)) view"
    using True by (simp add: v_def ac_simps)
  show ?thesis
    using True by (simp add: w) (simp add: writeBytes_def lv tk dr add.assoc)
next
  case False
  then show ?thesis by (simp add: writeBytes_def)
qed

lemma writeBytes_seq':
  "off' = off + length as \<Longrightarrow>
   writeBytes view off as \<bind> (\<lambda>v. writeBytes v off' bs) = writeBytes view off (as @ bs)"
  using writeBytes_seq [of view off as bs Some] by simp

lemma le_bytes_3: "le_bytes 3 v = [word_of_int v, word_of_int (v div 256 ^ 1), word_of_int (v div 256 ^ 2)]"
  by (simp add: le_bytes_def numeral_3_eq_3 upt_rec)

lemma writeSample_eq:
  "writeSample bits s (view, off) =
     map_option (\<lambda>v. (v, off + length (sampleBytes bits s))) (writeBytes view off (sampleBytes bits s))"
proof (cases "bits = 16")
  case True
  then show ?thesis
    by (simp add: writeSample_def sampleBytes_def setInt16_def clampSample_def le_bytes_def
        map_option_case split: option.splits)
next
  case False
  have "writeBytes view off [a] \<bind> (\<lambda>v1. writeBytes v1 (off + 1) [b] \<bind>
          (\<lambda>v2. writeBytes v2 (off + 2) [c] \<bind> (\<lambda>v3. Some (v3, off + 3)))) =
        map_option (\<lambda>v. (v, Suc (Suc (Suc off)))) (writeBytes view off [a, b, c])" for a b c
    by (auto simp add: writeBytes_def min_def split: if_splits)
  with False show ?thesis
    by (simp add: writeSample_def sampleBytes_def setUint8_def clampSample_def le_bytes_3
        byte0 byte1 byte2 Let_def)
qed

lemma forEachM_append:
  "forEachM f (xs @ ys) s = (case forEachM f xs s of None \<Rightarrow> None | Some s' \<Rightarrow> forEachM f ys s')"
  by (induction xs arbitrary: s) (auto split: option.splits)

lemma forEachM_nested:
  "forEachM (\<lambda>i. forEachM (\<lambda>c. f (g c i)) cs) is s =
   forEachM f (concat (map (\<lambda>i. map (\<lambda>c. g c i) cs) is)) s"
proof (induction "is" arbitrary: s)
  case Nil
  then show ?case by simp
next
  case (Cons i "is")
  have inner: "forEachM (\<lambda>c. f (g c i)) cs s = forEachM f (map (\<lambda>c. g c i) cs) s" for s
    by (induction cs arbitrary: s) (auto split: option.splits)
  show ?case
    by (simp add: forEachM_append inner Cons.IH split: option.splits)
qed

lemma forEachM_writeSample:
  "forEachM (writeSample bits) ss (view, off) =
     map_option (\<lambda>v. (v, off + length (concat (map (sampleBytes bits) ss))))
       (if ss = [] then Some view else writeBytes view off (concat (map (sampleBytes bits) ss)))"
proof (induction ss arbitrary: view off)
  case Nil
  then show ?case by simp
next
  case (Cons s ss)
  show ?case
  proof (cases "ss = []")
    case True
    then show ?thesis
      by (simp add: writeSample_eq split: option.splits)
  next
    case False
    have "forEachM (writeSample bits) (s # ss) (view, off) =
            writeBytes view off (sampleBytes bits s) \<bind>
              (\<lambda>v. writeBytes v (off + length (sampleBytes bits s))
                     (concat (map (sampleBytes bits) ss)) \<bind>
                 (\<lambda>v'. Some (v', off + length (sampleBytes bits s) +
                              length (concat (map (sampleBytes bits) ss)))))"
      using False by (simp add: writeSample_eq Cons.IH map_option_case split: option.splits)
    also have "\<dots> = writeBytes view off (sampleBytes bits s @ concat (map (sampleBytes bits) ss)) \<bind>
                 (\<lambda>v'. Some (v', off + length (sampleBytes bits s) +
                              length (concat (map (sampleBytes bits) ss))))"
      by (rule writeBytes_seq)
    finally show ?thesis
      by (simp add: map_option_case add.assoc split: option.splits)
  qed
qed

lemma length_le_bytes: "length (le_bytes n v) = n"
  by (simp add: le_bytes_def)

lemma length_stringBytes: "length (stringBytes cs) = length cs"
  by (simp add: stringBytes_def)

lemma writeString_eq:
  "cs \<noteq> [] \<Longrightarrow> writeString view off cs = writeBytes view off (stringBytes cs)"
proof (induction cs arbitrary: view off)
  case Nil
  then show ?case by simp
next
  case (Cons c cs)
  show ?case
  proof (cases "cs = []")
    case True
    then show ?thesis by (simp add: setUint8_def stringBytes_def)
  next
    case False
    then have "writeString view off (c # cs) =
        writeBytes view off [word_of_int (of_char c)] \<bind> (\<lambda>v. writeBytes v (off + 1) (stringBytes cs))"
      by (simp add: setUint8_def Cons.IH)
    also have "\<dots> = writeBytes view off ([word_of_int (of_char c)] @ stringBytes cs)"
      by (rule writeBytes_seq') simp
    finally show ?thesis by (simp add: stringBytes_def)
  qed
qed

lemma writeHeader_eq:
  "writeHeader buf nc rate bits ds = writeBytes buf 0 (headerBytes nc rate bits ds)"
  by (simp add: writeHeader_def headerBytes_def writeString_eq setUint32_def setUint16_def
      writeBytes_seq' length_le_bytes length_stringBytes Let_def del: writeString.simps)

lemma length_headerBytes: "length (headerBytes nc rate bits ds) = 44"
  by (simp add: headerBytes_def length_le_bytes length_stringBytes)

lemma length_data:
  "length (concat (map (sampleBytes bits) ss)) = length ss * (if bits = 16 then 2 else 3)"
  by (induction ss) (simp_all add: length_sampleBytes)

lemma length_interleaved: "length (interleaved b) = length_frames b * numberOfChannels b"
  by (simp add: interleaved_def length_concat comp_def sum_list_triv)

lemma bytesPerSample_cases:
  "bitsPerSampleOf q div 8 = (if bitsPerSampleOf q = 16 then 2 else 3)"
  by (simp add: bitsPerSampleOf_def)

lemma audioBufferToWav_eq:
  "audioBufferToWav b q =
     Some (headerBytes (numberOfChannels b) (sampleRate b) (bitsPerSampleOf q)
             (length_frames b * numberOfChannels b * (bitsPerSampleOf q div 8)) @
           concat (map (sampleBytes (bitsPerSampleOf q)) (interleaved b)))"
proof -
  define bits where "bits = bitsPerSampleOf q"
  define ds where "ds = length_frames b * numberOfChannels b * (bits div 8)"
  define hb where "hb = headerBytes (numberOfChannels b) (sampleRate b) bits ds"
  define data where "data = concat (map (sampleBytes bits) (interleaved b))"
  have lhb: "length hb = 44" by (simp add: hb_def length_headerBytes)
  have ld: "length data = ds"
    by (simp add: data_def ds_def length_data length_interleaved bits_def bytesPerSample_cases)
  have hdr: "writeHeader (replicate (44 + ds) 0) (numberOfChannels b) (sampleRate b) bits ds =
               Some (hb @ replicate ds 0)"
    by (simp add: writeHeader_eq writeBytes_def hb_def[symmetric] lhb)
  have loops: "forEachM (\<lambda>i. forEachM (\<lambda>channel. writeSample bits (sampleAt b channel i))
                  [0..<numberOfChannels b]) [0..<length_frames b] (hb @ replicate ds 0, 44) =
               forEachM (writeSample bits) (interleaved b) (hb @ replicate ds 0, 44)"
    unfolding interleaved_def by (rule forEachM_nested)
  have wr: "map_option fst (forEachM (writeSample bits) (interleaved b) (hb @ replicate ds 0, 44)) =
              Some (hb @ data)"
  proof (cases "interleaved b = []")
    case True
    then have "ds = 0" "data = []" using ld by (simp_all add: data_def)
    with True show ?thesis by simp
  next
    case False
    then show ?thesis
      by (simp add: forEachM_writeSample data_def[symmetric] writeBytes_def ld lhb option.map_comp comp_def)
  qed
  have "audioBufferToWav b q =
          forEachM (writeSample bits) (interleaved b) (hb @ replicate ds 0, 44) \<bind> (\<lambda>final. Some (fst final))"
    by (simp add: audioBufferToWav_def Let_def bits_def[symmetric] ds_def[symmetric] hdr loops)
  also have "\<dots> = map_option fst (forEachM (writeSample bits) (interleaved b) (hb @ replicate ds 0, 44))"
    by (cases "forEachM (writeSample bits) (interleaved b) (hb @ replicate ds 0, 44)") simp_all
  finally have "audioBufferToWav b q = Some (hb @ data)"
    by (simp only: wr)
  then show ?thesis
    by (simp add: hb_def data_def ds_def bits_def)
qed

lemma chunk_of_concat:
  "\<forall>x \<in> set xs. length (f x) = n \<Longrightarrow> k < length xs \<Longrightarrow>
     take n (drop (k * n) (concat (map f xs))) = f (xs ! k)"
proof (induction xs arbitrary: k)
  case Nil
  then show ?case by simp
next
  case (Cons x xs)
  show ?case
  proof (cases k)
    case 0
    with Cons.prems show ?thesis by simp
  next
    case (Suc j)
    with Cons.prems have "j < length xs" by simp
    with Cons have "take n (drop (j * n) (concat (map f xs))) = f (xs ! j)" by simp
    with Suc Cons.prems show ?thesis by simp
  qed
qed

lemma nth_concat_rows:
  "\<forall>x \<in> set xs. length (f x) = n \<Longrightarrow> i < length xs \<Longrightarrow> c < n \<Longrightarrow>
     concat (map f xs) ! (i * n + c) = f (xs ! i) ! c"
proof (induction xs arbitrary: i)
  case Nil
  then show ?case by simp
next
  case (Cons x xs)
  show ?case
  proof (cases i)
    case 0
    with Cons.prems show ?thesis by (simp add: nth_append)
  next
    case (Suc j)
    with Cons.prems have j: "j < length xs" by simp
    have "concat (map f (x # xs)) ! (Suc j * n + c) = (f x @ concat (map f xs)) ! (length (f x) + (j * n + c))"
      using Cons.prems by (simp add: add.assoc)
    also have "\<dots> = concat (map f xs) ! (j * n + c)"
      by (rule nth_append_length_plus)
    also have "\<dots> = f (xs ! j) ! c"
      using Cons j by simp
    finally show ?thesis using Suc by simp
  qed
qed

lemma interleaved_nth:
  assumes "i < length_frames b" "c < numberOfChannels b"
  shows "interleaved b ! (i * numberOfChannels b + c) = sampleAt b c i"
proof -
  have "interleaved b ! (i * numberOfChannels b + c) =
          map (\<lambda>channel. sampleAt b channel ([0..<length_frames b] ! i)) [0..<numberOfChannels b] ! c"
    unfolding interleaved_def using assms by (intro nth_concat_rows) simp_all
  then show ?thesis using assms by simp
qed

lemma uint_byte_of_int: "uint (word_of_int k :: byte) = k mod 256"
  by (simp add: uint_word_of_int take_bit_eq_mod)

lemma le_unsigned_2: "le_unsigned (le_bytes 2 v) = v mod 65536"
proof -
  have "le_bytes 2 v = [word_of_int v, word_of_int (v div 256)]"
    by (simp add: le_bytes_def numeral_2_eq_2 upt_rec)
  then have "le_unsigned (le_bytes 2 v) = v mod 256 + 256 * ((v div 256) mod 256)"
    by (simp add: uint_byte_of_int)
  also have "\<dots> = v mod 65536"
    using zmod_zmult2_eq [of 256 v 256] by simp
  finally show ?thesis by simp
qed

lemma le_unsigned_3: "le_unsigned (le_bytes 3 v) = v mod 16777216"
proof -
  have "le_unsigned (le_bytes 3 v) =
          v mod 256 + 256 * ((v div 256) mod 256 + 256 * ((v div 65536) mod 256))"
    by (simp add: le_bytes_3 uint_byte_of_int)
  also have "(v div 256) mod 256 + 256 * ((v div 65536) mod 256) = (v div 256) mod 65536"
    using zmod_zmult2_eq [of 256 "v div 256" 256] zdiv_zmult2_eq [of 256 v 256] by simp
  also have "v mod 256 + 256 * ((v div 256) mod 65536) = v mod 16777216"
    using zmod_zmult2_eq [of 65536 v 256] by simp
  finally show ?thesis by simp
qed

lemma le_signed_2: "- 32768 \<le> v \<Longrightarrow> v < 32768 \<Longrightarrow> le_signed (le_bytes 2 v) = v"
proof -
  assume a: "- 32768 \<le> v" "v < 32768"
  show ?thesis
  proof (cases "0 \<le> v")
    case True
    with a have "v mod 65536 = v" by simp
    with a show ?thesis by (simp add: le_signed_def le_unsigned_2 length_le_bytes Let_def)
  next
    case False
    with a have "(v + 65536) mod 65536 = v + 65536"
      by (intro mod_pos_pos_trivial) simp_all
    then have "v mod 65536 = v + 65536" by simp
    with a False show ?thesis by (simp add: le_signed_def le_unsigned_2 length_le_bytes Let_def)
  qed
qed

lemma le_signed_3: "- 8388608 \<le> v \<Longrightarrow> v < 8388608 \<Longrightarrow> le_signed (le_bytes 3 v) = v"
proof -
  assume a: "- 8388608 \<le> v" "v < 8388608"
  show ?thesis
  proof (cases "0 \<le> v")
    case True
    with a have "v mod 16777216 = v" by simp
    with a show ?thesis by (simp add: le_signed_def le_unsigned_3 length_le_bytes Let_def)
  next
    case False
    with a have "(v + 16777216) mod 16777216 = v + 16777216"
      by (intro mod_pos_pos_trivial) simp_all
    then have "v mod 16777216 = v + 16777216" by simp
    with a False show ?thesis by (simp add: le_signed_def le_unsigned_3 length_le_bytes Let_def)
  qed
qed

lemma clampSample_bounds: "- 1 \<le> clampSample s" "clampSample s \<le> 1"
  by (simp_all add: clampSample_def)

lemma js_trunc_bounds:
  assumes "- real_of_int n \<le> x" "x \<le> real_of_int n"
  shows "- n \<le> js_trunc x" "js_trunc x \<le> n"
  using assms by (auto simp add: js_trunc_def le_floor_iff floor_le_iff ceiling_le_iff le_ceiling_iff)

lemma le_signed_sampleBytes_16:
  "le_signed (sampleBytes 16 s) = js_trunc (clampSample s * 32767)"
proof -
  have "- real_of_int 32767 \<le> clampSample s * 32767" "clampSample s * 32767 \<le> real_of_int 32767"
    using clampSample_bounds [of s] by simp_all
  from js_trunc_bounds [OF this] show ?thesis
    by (simp add: sampleBytes_def le_signed_2)
qed

lemma le_signed_sampleBytes_24:
  "bits \<noteq> 16 \<Longrightarrow> le_signed (sampleBytes bits s) = \<lfloor>clampSample s * 8388607\<rfloor>"
proof -
  assume b: "bits \<noteq> 16"
  have "- 8388607 \<le> clampSample s * 8388607" "clampSample s * 8388607 \<le> 8388607"
    using clampSample_bounds [of s] by simp_all
  then have "- 8388607 \<le> \<lfloor>clampSample s * 8388607\<rfloor>" "\<lfloor>clampSample s * 8388607\<rfloor> \<le> 8388607"
    by (simp_all add: le_floor_iff floor_le_iff) 
  with b show ?thesis
    by (simp add: sampleBytes_def le_signed_3)
qed

lemma wav_sample_bytes:
  assumes "wf_buffer b" "i < length_frames b" "c < numberOfChannels b"
  shows "\<exists>wav. audioBufferToWav b q = Some wav \<and>
    take (bitsPerSampleOf q div 8)
      (drop (44 + (i * numberOfChannels b + c) * (bitsPerSampleOf q div 8)) wav) =
    sampleBytes (bitsPerSampleOf q) (channelData b ! c ! i)"
proof -
  define bits where "bits = bitsPerSampleOf q"
  define n where "n = (if bits = 16 then 2 else 3 :: nat)"
  define k where "k = i * numberOfChannels b + c"
  define hb where "hb = headerBytes (numberOfChannels b) (sampleRate b) bits
             (length_frames b * numberOfChannels b * (bits div 8))"
  define data where "data = concat (map (sampleBytes bits) (interleaved b))"
  have wav: "audioBufferToWav b q = Some (hb @ data)"
    by (simp add: audioBufferToWav_eq hb_def data_def bits_def)
  have "i * numberOfChannels b + c < i * numberOfChannels b + numberOfChannels b"
    using assms by simp
  also have "\<dots> = Suc i * numberOfChannels b" by simp
  also have "\<dots> \<le> length_frames b * numberOfChannels b"
    using assms by (intro mult_le_mono1) simp
  finally have k: "k < length (interleaved b)"
    by (simp add: k_def length_interleaved)
  have "take n (drop (k * n) data) = sampleBytes bits (interleaved b ! k)"
    unfolding data_def using k by (intro chunk_of_concat) (simp_all add: length_sampleBytes n_def)
  moreover have "interleaved b ! k = sampleAt b c i"
    unfolding k_def using assms by (intro interleaved_nth)
  moreover have "sampleAt b c i = channelData b ! c ! i"
    using assms by (simp add: sampleAt_def wf_buffer_def list_all_length)
  ultimately have chunk: "take n (drop (44 + k * n) (hb @ data)) = sampleBytes bits (channelData b ! c ! i)"
    by (simp add: hb_def length_headerBytes)
  have bps: "bits div 8 = n"
    by (simp add: bits_def n_def bitsPerSampleOf_def)
  from chunk show ?thesis
    by (simp add: wav bits_def[symmetric] bps k_def[symmetric])
qed

text \<open>
  C4, as the code has it: every sample is clamped to [-1,1]; with 24 bits the three bytes at
  its place are \<open>floor(sample * 8388607)\<close> in two's complement, lowest byte first;
  with 16 bits the two bytes are \<open>sample * 32767\<close> with its fraction dropped (towards
  zero, as \<open>setInt16\<close> converts its argument), lowest byte first. The place of sample
  \<open>i\<close> of channel \<open>c\<close> is \<open>44 + (i * numChannels + c) * bytesPerSample\<close>: frame-major,
  channel-minor.
\<close>

theorem wav_sample_encoding:
  assumes "wf_buffer b" "i < length_frames b" "c < numberOfChannels b"
  shows "\<exists>wav. audioBufferToWav b q = Some wav \<and>
    (let bytesPerSample = bitsPerSampleOf q div 8;
         pos = 44 + (i * numberOfChannels b + c) * bytesPerSample;
         s = clampSample (channelData b ! c ! i)
     in if q \<ge> 0.8 then le_signed (take 3 (drop pos wav)) = \<lfloor>s * 8388607\<rfloor>
        else le_signed (take 2 (drop pos wav)) = js_trunc (s * 32767))"
proof -
  from wav_sample_bytes [OF assms, of q] obtain wav where
    wav: "audioBufferToWav b q = Some wav" and
    chunk: "take (bitsPerSampleOf q div 8)
      (drop (44 + (i * numberOfChannels b + c) * (bitsPerSampleOf q div 8)) wav) =
      sampleBytes (bitsPerSampleOf q) (channelData b ! c ! i)"
    by blast
  show ?thesis
  proof (cases "q \<ge> 0.8")
    case True
    then have "bitsPerSampleOf q = 24" by (simp add: bitsPerSampleOf_def)
    with chunk True show ?thesis
      by (simp add: wav Let_def le_signed_sampleBytes_24)
  next
    case False
    then have "bitsPerSampleOf q = 16" by (simp add: bitsPerSampleOf_def)
    with chunk False show ?thesis
      by (simp add: wav Let_def le_signed_sampleBytes_16)
  qed
qed

theorem wav_sample_encoding_witness:
  "wf_buffer stereoBuffer \<and> (1::nat) < length_frames stereoBuffer \<and>
   (0::nat) < numberOfChannels stereoBuffer \<and>
   (\<exists>wav. audioBufferToWav stereoBuffer 1 = Some wav \<and>
      le_signed (take 3 (drop 50 wav)) = - 8388607)"
  using wav_sample_encoding [of stereoBuffer 1 0 1]
  by (simp add: stereoBuffer_def wf_buffer_def bitsPerSampleOf_def clampSample_def)

lemma wf_quarterBuffer: "wf_buffer quarterBuffer"
  by (simp add: quarterBuffer_def wf_buffer_def)

text \<open>
  C4 as stated fails for 16 bits: the sample 1/4 gives 8191.75, which the encoder writes
  as 8191, and rounding gives 8192.
\<close>

theorem wav_16bit_truncates:
  "map_option (\<lambda>wav. le_signed (take 2 (drop 44 wav))) (audioBufferToWav quarterBuffer 0.5) = Some 8191
   \<and> round (clampSample (1/4) * 32767) = (8192::int)"
proof -
  have "bitsPerSampleOf 0.5 = 16" by (simp add: bitsPerSampleOf_def)
  with wav_sample_bytes [OF wf_quarterBuffer, of 0 0 "0.5"] obtain wav where
    wav: "audioBufferToWav quarterBuffer 0.5 = Some wav" and
    chunk: "take 2 (drop 44 wav) = sampleBytes 16 (1/4)"
    by (auto simp add: quarterBuffer_def)
  have "js_trunc (clampSample (1/4) * 32767) = 8191"
    by (simp add: js_trunc_def clampSample_def)
  moreover have "round (clampSample (1/4) * 32767) = (8192::int)"
    by (simp add: round_def clampSample_def)
  ultimately show ?thesis
    using wav chunk by (simp add: le_signed_sampleBytes_16)
qed

subsection \<open>The delay stage\<close>

lemma chain_without_delay:
  "\<not> hasDelay track \<Longrightarrow>
     chainNodes track impulse =
       [Source, TrackGain (volume track)] @
       (if hasReverb track impulse
        then [ReverbNode, DryGain (1 - reverbAmount track), WetGain (reverbAmount track)] else [])
     \<and> chainEdges track impulse =
       (if hasReverb track impulse
        then [(Source, DryGain (1 - reverbAmount track)), (Source, ReverbNode),
              (DryGain (1 - reverbAmount track), TrackGain (volume track)),
              (ReverbNode, WetGain (reverbAmount track)),
              (WetGain (reverbAmount track), TrackGain (volume track)),
              (TrackGain (volume track), MasterGain)]
        else [(Source, TrackGain (volume track)), (TrackGain (volume track), MasterGain)])"
  by (simp add: chainNodes_def chainEdges_def chainWiring_def Let_def)

lemma startSource_feedback:
  "\<not> hasDelay track \<Longrightarrow>
     startSource sample (track\<lparr>delayFeedback := f\<rparr>) impulse i w off =
     startSource sample track impulse i w off"
proof -
  assume nd: "\<not> hasDelay track"
  then have nd': "\<not> hasDelay (track\<lparr>delayFeedback := f\<rparr>)" by (simp add: hasDelay_def)
  have r: "hasReverb (track\<lparr>delayFeedback := f\<rparr>) impulse = hasReverb track impulse"
    by (simp add: hasReverb_def)
  show ?thesis
    using chain_without_delay [OF nd, of impulse] chain_without_delay [OF nd', of impulse]
    by (simp add: startSource_def r)
qed

lemma scheduleTrack_feedback:
  "\<not> hasDelay track \<Longrightarrow>
     scheduleTrack w0 t0 impulse smps (track\<lparr>delayFeedback := f\<rparr>) =
     scheduleTrack w0 t0 impulse smps track"
  by (simp add: scheduleTrack_def startSource_feedback Let_def cong: option.case_cong if_cong)

lemma startSource_no_delay_stage:
  "\<not> hasDelay track \<Longrightarrow> \<not> hasDelayStage (startSource sample track impulse i w off)"
  using chain_without_delay [of track impulse]
  by (simp add: hasDelayStage_def startSource_def)

lemma scheduleTrack_sources:
  "e \<in> set (scheduleTrack w0 t0 impulse smps track) \<Longrightarrow>
     \<exists>sample i w off. e = startSource sample track impulse i w off"
  by (auto simp add: scheduleTrack_def Let_def split: option.splits if_splits)

lemma playComposition_sources:
  "audioSources (playComposition st) =
     (case audioContext st of
        None \<Rightarrow> audioSources st
      | Some ctx \<Rightarrow>
          if \<not> gainNode st then audioSources st
          else if tracks st = [] then audioSources st
          else concat (map (scheduleTrack (ctx_currentTime ctx) (currentTime st)
                              (impulseResponse st) (samples st)) (tracks st)))"
  by (simp add: playComposition_def stopPlayback_def Let_def split: option.splits)

text \<open>
  C6: for a track with \<open>delayTime = 0\<close> no source that is started has a node of the
  delay stage among its nodes or connections, and the sources started are the same
  whatever \<open>delayFeedback\<close> is; so are the sources of a whole composition, and the
  result of its export, when the feedback of its tracks without delay is changed.
\<close>

theorem delay_feedback_inert:
  assumes "delayTime track = 0"
  shows "scheduleTrack w0 t0 impulse smps (track\<lparr>delayFeedback := f\<rparr>) =
           scheduleTrack w0 t0 impulse smps track \<and>
         list_all (\<lambda>e. \<not> hasDelayStage e) (scheduleTrack w0 t0 impulse smps track) \<and>
         audioSources (playComposition (st\<lparr>tracks :=
             map (\<lambda>t. if delayTime t = 0 then t\<lparr>delayFeedback := g t\<rparr> else t) (tracks st)\<rparr>)) =
         audioSources (playComposition st) \<and>
         exportComposition (st\<lparr>tracks :=
             map (\<lambda>t. if delayTime t = 0 then t\<lparr>delayFeedback := g t\<rparr> else t) (tracks st)\<rparr>) q =
         exportComposition st q"
proof (intro conjI)
  show "exportComposition (st\<lparr>tracks :=
             map (\<lambda>t. if delayTime t = 0 then t\<lparr>delayFeedback := g t\<rparr> else t) (tracks st)\<rparr>) q =
         exportComposition st q"
    by (cases "audioContext st") (simp_all add: exportComposition_def)
  from assms have nd: "\<not> hasDelay track" by (simp add: hasDelay_def)
  show "scheduleTrack w0 t0 impulse smps (track\<lparr>delayFeedback := f\<rparr>) =
           scheduleTrack w0 t0 impulse smps track"
    using nd by (rule scheduleTrack_feedback)
  show "list_all (\<lambda>e. \<not> hasDelayStage e) (scheduleTrack w0 t0 impulse smps track)"
    unfolding list_all_iff
  proof
    fix e assume "e \<in> set (scheduleTrack w0 t0 impulse smps track)"
    then obtain sample i w off where "e = startSource sample track impulse i w off"
      using scheduleTrack_sources by blast
    with nd show "\<not> hasDelayStage e" by (simp add: startSource_no_delay_stage)
  qed
  have same: "scheduleTrack w t imp ss (if delayTime x = 0 then x\<lparr>delayFeedback := g x\<rparr> else x) =
        scheduleTrack w t imp ss x" for w t imp ss x
    by (simp add: scheduleTrack_feedback hasDelay_def)
  show "audioSources (playComposition (st\<lparr>tracks :=
             map (\<lambda>t. if delayTime t = 0 then t\<lparr>delayFeedback := g t\<rparr> else t) (tracks st)\<rparr>)) =
         audioSources (playComposition st)"
    by (simp add: playComposition_sources comp_def same split: option.splits)
qed

theorem delay_feedback_inert_witness:
  "delayTime delayedTrack = 0 \<and>
   scheduleTrack 0 0 (Some (silence 2 4 44100)) [twoSecondSample] (delayedTrack\<lparr>delayFeedback := 0.9\<rparr>) =
     scheduleTrack 0 0 (Some (silence 2 4 44100)) [twoSecondSample] delayedTrack \<and>
   list_all (\<lambda>e. \<not> hasDelayStage e)
     (scheduleTrack 0 0 (Some (silence 2 4 44100)) [twoSecondSample] delayedTrack) \<and>
   length (scheduleTrack 0 0 (Some (silence 2 4 44100)) [twoSecondSample] delayedTrack) = 2"
proof -
  have d: "delayTime delayedTrack = 0" by (simp add: delayedTrack_def plainTrack_def)
  have "length (scheduleTrack 0 0 (Some (silence 2 4 44100)) [twoSecondSample] delayedTrack) = 2"
    by (simp add: scheduleTrack_def delayedTrack_def plainTrack_def twoSecondSample_def
        findSample_def silence_def duration_def semitonesToPlaybackRate_def Let_def upto.simps)
  with d delay_feedback_inert [OF d, of 0 0 "Some (silence 2 4 44100)" "[twoSecondSample]" "0.9"]
  show ?thesis by simp
qed

subsection \<open>Seeking into a track\<close>

text \<open>
  C2, at the seek of the scenario (cursor 1.5, device time 10, three one-second
  repetitions): the second repetition starts at once, half a second into the sample; the
  third is started at device time 11, one second after the start of playback, where the
  claim has 10.5.
\<close>

theorem seek_schedules_third_repetition_late:
  "map timing (audioSources (playComposition seekStudio)) = [(1, 10, 1/2), (2, 11, 0)]"
  by (simp add: playComposition_sources seekStudio_def studio0_def scheduleTrack_def
      oneSecondSample_def plainTrack_def findSample_def silence_def duration_def
      semitonesToPlaybackRate_def Let_def upto.simps timing_def startSource_def)

subsection \<open>Size of the file and the export\<close>

lemma bits_field: "take 2 (drop 34 (headerBytes nc rate bits ds @ data)) = le_bytes 2 (int bits)"
  by (simp add: headerBytes_def length_le_bytes length_stringBytes)

lemma wav_size:
  "\<exists>wav. audioBufferToWav b q = Some wav \<and>
     length wav = 44 + length_frames b * numberOfChannels b * (bitsPerSampleOf q div 8) \<and>
     le_unsigned (take 2 (drop 34 wav)) = int (bitsPerSampleOf q)"
proof -
  define hb where "hb = headerBytes (numberOfChannels b) (sampleRate b) (bitsPerSampleOf q)
             (length_frames b * numberOfChannels b * (bitsPerSampleOf q div 8))"
  define data where "data = concat (map (sampleBytes (bitsPerSampleOf q)) (interleaved b))"
  have wav: "audioBufferToWav b q = Some (hb @ data)"
    by (simp add: audioBufferToWav_eq hb_def data_def)
  have len: "length (hb @ data) =
      44 + length_frames b * numberOfChannels b * (bitsPerSampleOf q div 8)"
    by (simp add: hb_def data_def length_headerBytes length_data length_interleaved
        bytesPerSample_cases)
  have "take 2 (drop 34 (hb @ data)) = le_bytes 2 (int (bitsPerSampleOf q))"
    unfolding hb_def by (rule bits_field)
  then have field: "le_unsigned (take 2 (drop 34 (hb @ data))) = int (bitsPerSampleOf q)"
    by (simp add: le_unsigned_2 bitsPerSampleOf_def)
  from wav len field show ?thesis by blast
qed

lemma export_completes:
  assumes "audioContext st = Some ctx" "tracks st \<noteq> []"
    and "0 < \<lceil>compositionDuration st * ctx_sampleRate ctx\<rceil>"
  shows "\<exists>blob. exportComposition st q =
      Completes \<lparr>ex_context = \<lparr>oc_numberOfChannels = 2,
                   oc_length = nat \<lceil>compositionDuration st * ctx_sampleRate ctx\<rceil>,
                   oc_sampleRate = ctx_sampleRate ctx, oc_sources = []\<rparr>,
                 ex_rendered = silence 2 (nat \<lceil>compositionDuration st * ctx_sampleRate ctx\<rceil>)
                                 (ctx_sampleRate ctx),
                 ex_blob = blob, ex_extension = ''wav''\<rparr> \<and>
      length blob = 44 + nat \<lceil>compositionDuration st * ctx_sampleRate ctx\<rceil> * 2 *
                           (bitsPerSampleOf q div 8) \<and>
      le_unsigned (take 2 (drop 34 blob)) = int (bitsPerSampleOf q)"
proof -
  define n where "n = nat \<lceil>compositionDuration st * ctx_sampleRate ctx\<rceil>"
  define b where "b = silence 2 n (ctx_sampleRate ctx)"
  from wav_size [of b q] obtain wav where
    wav: "audioBufferToWav b q = Some wav" and
    len: "length wav = 44 + length_frames b * numberOfChannels b * (bitsPerSampleOf q div 8)" and
    field: "le_unsigned (take 2 (drop 34 wav)) = int (bitsPerSampleOf q)"
    by blast
  have "exportComposition st q =
      Completes \<lparr>ex_context = \<lparr>oc_numberOfChannels = 2, oc_length = n,
                   oc_sampleRate = ctx_sampleRate ctx, oc_sources = []\<rparr>,
                 ex_rendered = b, ex_blob = wav, ex_extension = ''wav''\<rparr>"
    using assms wav
    by (simp add: exportComposition_def newOfflineAudioContext_def startRendering_def
        n_def[symmetric] b_def[symmetric])
  moreover have "length wav = 44 + n * 2 * (bitsPerSampleOf q div 8)"
    using len by (simp add: b_def silence_def)
  ultimately show ?thesis
    using field by (simp add: n_def b_def)
qed

lemma exportStudio_completes:
  "\<exists>blob. exportComposition exportStudio 1 =
      Completes \<lparr>ex_context = \<lparr>oc_numberOfChannels = 2, oc_length = 88200,
                   oc_sampleRate = 44100, oc_sources = []\<rparr>,
                 ex_rendered = silence 2 88200 44100,
                 ex_blob = blob, ex_extension = ''wav''\<rparr> \<and>
      length blob = 529244 \<and> le_unsigned (take 2 (drop 34 blob)) = 24"
proof -
  have a: "audioContext exportStudio = Some \<lparr>ctx_currentTime = 0, ctx_sampleRate = 44100\<rparr>"
    and t: "tracks exportStudio \<noteq> []" and c: "compositionDuration exportStudio = 2"
    by (simp_all add: exportStudio_def studio0_def)
  have p: "0 < \<lceil>compositionDuration exportStudio *
                 ctx_sampleRate \<lparr>ctx_currentTime = 0, ctx_sampleRate = 44100\<rparr>\<rceil>"
    by (simp add: c)
  from export_completes [OF a t p, of 1] show ?thesis
    by (simp add: c bitsPerSampleOf_def)
qed

text \<open>
  C5, as the code has it: the encoder takes 24 bits exactly when \<open>quality \<ge> 0.8\<close> and 16
  otherwise, writes that depth into the header, and its file has
  \<open>44 + frameCount * numChannels * bytesPerSample\<close> bytes. The export renders into a
  context of two channels: for the scenario (a 2-second mono sample at 44100 Hz, placed
  once at 0, composition duration 2, device rate 44100, quality 1) the rendered buffer has
  2 channels of 88200 frames and the 24-bit file has \<open>44 + 88200 * 2 * 3\<close> bytes. The
  encoder applied to the mono buffer of the sample itself gives \<open>44 + 2 * 44100 * 3\<close>
  bytes.
\<close>

theorem wav_depth_and_size:
  "(\<exists>wav. audioBufferToWav b q = Some wav \<and>
      length wav = 44 + length_frames b * numberOfChannels b * (bitsPerSampleOf q div 8) \<and>
      le_unsigned (take 2 (drop 34 wav)) = int (bitsPerSampleOf q)) \<and>
   bitsPerSampleOf q = (if q \<ge> 0.8 then 24 else 16) \<and>
   maxEndTimeOf (samples exportStudio) (tracks exportStudio) = 2 \<and>
   compositionDuration exportStudio = 2 \<and>
   (\<exists>r. exportComposition exportStudio 1 = Completes r \<and>
      numberOfChannels (ex_rendered r) = 2 \<and> length_frames (ex_rendered r) = 88200 \<and>
      le_unsigned (take 2 (drop 34 (ex_blob r))) = 24 \<and>
      length (ex_blob r) = 44 + 88200 * 2 * 3) \<and>
   (\<exists>wav. audioBufferToWav (buffer twoSecondSample) 1 = Some wav \<and>
      length wav = 44 + 2 * 44100 * 3)"
proof (intro conjI)
  from wav_size [of "buffer twoSecondSample" 1]
  show "\<exists>wav. audioBufferToWav (buffer twoSecondSample) 1 = Some wav \<and>
      length wav = 44 + 2 * 44100 * 3"
    by (auto simp add: twoSecondSample_def silence_def bitsPerSampleOf_def)
  show "\<exists>wav. audioBufferToWav b q = Some wav \<and>
      length wav = 44 + length_frames b * numberOfChannels b * (bitsPerSampleOf q div 8) \<and>
      le_unsigned (take 2 (drop 34 wav)) = int (bitsPerSampleOf q)"
    by (rule wav_size)
  show "bitsPerSampleOf q = (if q \<ge> 0.8 then 24 else 16)"
    by (simp add: bitsPerSampleOf_def)
  show "maxEndTimeOf (samples exportStudio) (tracks exportStudio) = 2"
    by (simp add: exportStudio_def studio0_def maxEndTimeOf_def durationStep_def findSample_def
        twoSecondSample_def plainTrack_def trackEndTime_def duration_def
        semitonesToPlaybackRate_def silence_def)
  show "compositionDuration exportStudio = 2"
    by (simp add: exportStudio_def)
  from exportStudio_completes obtain blob where
    "exportComposition exportStudio 1 =
      Completes \<lparr>ex_context = \<lparr>oc_numberOfChannels = 2, oc_length = 88200,
                   oc_sampleRate = 44100, oc_sources = []\<rparr>,
                 ex_rendered = silence 2 88200 44100,
                 ex_blob = blob, ex_extension = ''wav''\<rparr>"
    "length blob = 529244" "le_unsigned (take 2 (drop 34 blob)) = 24"
    by blast
  then show "\<exists>r. exportComposition exportStudio 1 = Completes r \<and>
      numberOfChannels (ex_rendered r) = 2 \<and> length_frames (ex_rendered r) = 88200 \<and>
      le_unsigned (take 2 (drop 34 (ex_blob r))) = 24 \<and>
      length (ex_blob r) = 44 + 88200 * 2 * 3"
    by (simp add: silence_def)
qed

text \<open>
  C5 as stated fails in its scenario: the exported file has 529244 bytes, not
  \<open>44 + 2 * 44100 * 3\<close>.
\<close>

theorem export_scenario_size:
  "blobSize (exportComposition exportStudio 1) = Some 529244 \<and>
   blobSize (exportComposition exportStudio 1) \<noteq> Some (44 + 2 * 44100 * 3)"
proof -
  from exportStudio_completes obtain blob where
    "exportComposition exportStudio 1 =
      Completes \<lparr>ex_context = \<lparr>oc_numberOfChannels = 2, oc_length = 88200,
                   oc_sampleRate = 44100, oc_sources = []\<rparr>,
                 ex_rendered = silence 2 88200 44100,
                 ex_blob = blob, ex_extension = ''wav''\<rparr>"
    "length blob = 529244"
    by blast
  then show ?thesis by (simp add: blobSize_def)
qed

text \<open>
  C1, at the export of the scenario: the offline context has 2 channels, 88200 frames and
  the device rate, and the export completes without having started any source in it (the
  rendered buffer is silent), while live playback from cursor 0 at device time 0 starts one
  source for the track.
\<close>

theorem export_starts_no_source:
  "offlineSources (exportComposition exportStudio 1) = Some [] \<and>
   map timing (audioSources (playComposition exportStudio)) = [(0, 0, 0)]"
proof -
  from exportStudio_completes obtain blob where
    "exportComposition exportStudio 1 =
      Completes \<lparr>ex_context = \<lparr>oc_numberOfChannels = 2, oc_length = 88200,
                   oc_sampleRate = 44100, oc_sources = []\<rparr>,
                 ex_rendered = silence 2 88200 44100,
                 ex_blob = blob, ex_extension = ''wav''\<rparr>"
    by blast
  then have "offlineSources (exportComposition exportStudio 1) = Some []"
    by (simp add: offlineSources_def)
  moreover have "map timing (audioSources (playComposition exportStudio)) = [(0, 0, 0)]"
    by (simp add: playComposition_sources exportStudio_def studio0_def scheduleTrack_def
        twoSecondSample_def plainTrack_def findSample_def silence_def duration_def
        semitonesToPlaybackRate_def Let_def upto.simps timing_def startSource_def)
  ultimately show ?thesis by simp
qed

subsection \<open>Extraction\<close>



















end
